theory Spec2Isabelle
  imports Complex_Main "HOL-Library.Sublist"
begin

section \<open>Whisper speech-to-text service (backend/whisper-service/main.py)\<close>

text \<open>
  A shallow embedding of the service: the global model handle, the process environment
  and the file system are fields of an explicit \<open>world\<close> that every operation takes and
  returns. Calls into libraries the service does not define (the faster_whisper model, the
  upload object of the HTTP framework, the random names of \<open>tempfile\<close>) are inputs: a
  handle is a function from the call's arguments to an outcome, and a request carries the
  outcome of reading its upload. Logging is not modelled.
\<close>

subsection \<open>Exceptions and responses\<close>

text \<open>
  The source catches with three different clauses: \<open>except ImportError\<close>,
  \<open>except Exception\<close> and a bare \<open>except\<close>. An exception value therefore carries its
  class, as far as these clauses tell classes apart, and the text \<open>str(e)\<close> that the
  f-strings interpolate. Only exceptions below \<open>Exception\<close> are modelled; signals that are
  not (KeyboardInterrupt, SystemExit, task cancellation) are outside the model.
\<close>

datatype exn_class = ImportError | OtherException

datatype py_exn = PyExn (exn_class: exn_class) (exn_str: string)

text \<open>
  What leaves an endpoint other than a response body: an \<open>HTTPException\<close> with its
  status code and detail, or any other exception, which propagates to the framework
  unshaped.
\<close>

datatype failure = HTTPException nat string | Unhandled py_exn

subsection \<open>The model handle\<close>

text \<open>
  Texts of segments are Python \<open>str\<close> values, sequences of Unicode code points:
  \<open>nat list\<close>. Times are Python floats; the code only copies them, and they are taken as
  reals. File names, environment values and messages are \<open>string\<close>.
\<close>

record segment =
  seg_start :: real
  seg_end :: real
  seg_text :: "nat list"

text \<open>
  The first component of what \<open>transcribe\<close> of the library returns is a generator: it
  yields segments and may raise once they are exhausted by the loop.
\<close>

record segments_gen =
  yields :: "segment list"
  raises :: "py_exn option"

record transcription_info =
  info_language :: string
  info_duration :: real

record transcribe_call =
  call_path :: string
  call_language :: "string option"
  beam_size :: nat
  best_of :: nat
  temperature :: nat
  vad_filter :: bool

datatype whisper_handle =
  Handle (run_transcribe:
    "(string \<rightharpoonup> string) \<Rightarrow> transcribe_call \<Rightarrow> py_exn + (segments_gen \<times> transcription_info)")

record model_config =
  cfg_model_size :: string
  cfg_device :: string
  cfg_compute_type :: string

type_synonym whisper_ctor = "model_config \<Rightarrow> py_exn + whisper_handle"

subsection \<open>World, requests and response bodies\<close>

record world =
  whisper_model :: "whisper_handle option"
  environ :: "string \<rightharpoonup> string"
  files :: "string \<rightharpoonup> string"

text \<open>
  A request: the upload's file name, the outcome of \<open>await audio.read()\<close>, the language
  hint, and what the file system will do during the request: the random names
  \<open>tempfile\<close> tries in turn, and the error of \<open>tmp.write\<close>, if any.
\<close>

record request =
  audio_filename :: "string option"
  audio_read :: "py_exn + string"
  req_language :: "string option"
  tmp_names :: "string list"
  tmp_write :: "py_exn option"

record segment_dict =
  d_start :: real
  d_end :: real
  d_text :: "nat list"

record transcription_result =
  res_text :: "nat list"
  res_language :: string
  res_duration :: real
  res_segments :: "segment_dict list"

record stream_result =
  st_segments :: "segment_dict list"
  st_language :: string
  st_duration :: real

record health_response =
  status :: string
  model_loaded :: bool
  model_name :: string

subsection \<open>Library functions the service calls\<close>

text \<open>\<open>os.environ.get(key, default)\<close>.\<close>

definition environ_get :: "(string \<rightharpoonup> string) \<Rightarrow> string \<Rightarrow> string \<Rightarrow> string" where
  "environ_get env key dflt = (case env key of None \<Rightarrow> dflt | Some v \<Rightarrow> v)"

text \<open>
  \<open>str.isspace\<close> on one code point, and \<open>str.strip()\<close> with no argument: the white
  space of Unicode is removed from both ends.
\<close>

definition isspace :: "nat \<Rightarrow> bool" where
  "isspace c \<longleftrightarrow>
     (9 \<le> c \<and> c \<le> 13) \<or> (28 \<le> c \<and> c \<le> 32) \<or> c = 133 \<or> c = 160 \<or> c = 5760 \<or>
     (8192 \<le> c \<and> c \<le> 8202) \<or> c = 8232 \<or> c = 8233 \<or> c = 8239 \<or> c = 8287 \<or> c = 12288"

definition strip :: "nat list \<Rightarrow> nat list" where
  "strip s = rev (dropWhile isspace (rev (dropWhile isspace s)))"

text \<open>\<open>str.rfind\<close> of one character: the last index where it stands, or -1.\<close>

fun rfind :: "'a list \<Rightarrow> 'a \<Rightarrow> int" where
  "rfind [] c = - 1"
| "rfind (x # xs) c =
     (let r = rfind xs c in if 0 \<le> r then r + 1 else if x = c then 0 else - 1)"

text \<open>
  \<open>os.path.splitext\<close> of posixpath: the extension starts at the last dot of the last
  path component, unless only dots stand before it in that component. The loop that
  skips the leading dots is \<open>splitext_scan\<close>.
\<close>

function splitext_scan :: "string \<Rightarrow> nat \<Rightarrow> nat \<Rightarrow> string \<times> string" where
  "splitext_scan p filenameIndex dotIndex =
     (if filenameIndex < dotIndex then
        (if take 1 (drop filenameIndex p) \<noteq> ''.'' then (take dotIndex p, drop dotIndex p)
         else splitext_scan p (Suc filenameIndex) dotIndex)
      else (p, []))"
  by pat_completeness auto
termination
  by (relation "measure (\<lambda>(p, filenameIndex, dotIndex). dotIndex - filenameIndex)") auto

declare splitext_scan.simps [simp del]

definition splitext :: "string \<Rightarrow> string \<times> string" where
  "splitext p =
     (let sepIndex = rfind p (CHR ''/'');
          dotIndex = rfind p (CHR ''.'')
      in if dotIndex > sepIndex then splitext_scan p (nat (sepIndex + 1)) (nat dotIndex)
         else (p, []))"

text \<open>
  \<open>tempfile.NamedTemporaryFile(delete=False, suffix=ext)\<close>: the file is created empty
  in the temporary directory under the prefix \<open>tmp\<close>, a candidate name and the suffix.
  Opening a path with a NUL character raises \<open>ValueError\<close>; a file name longer than the
  255 bytes a Linux file system allows raises \<open>OSError\<close> (the text shows the path between
  quotes, the escapes of \<open>repr\<close> not modelled); a name that is taken is skipped, and
  \<open>FileExistsError\<close> is raised when no candidate is left. With \<open>delete=False\<close> closing
  the file does not remove it. (The suffix of an upload holds no slash, so prefix, name
  and suffix are one path component.)
\<close>

fun named_temporary_file :: "world \<Rightarrow> string list \<Rightarrow> string \<Rightarrow> py_exn + (string \<times> world)" where
  "named_temporary_file w [] sfx =
     Inl (PyExn OtherException ''[Errno 17] No usable temporary file name found'')"
| "named_temporary_file w (name # names) sfx =
     (let path = ''/tmp/tmp'' @ name @ sfx
      in if CHR 0x00 \<in> set path then Inl (PyExn OtherException ''embedded null byte'')
         else if 255 < length (''tmp'' @ name @ sfx)
         then Inl (PyExn OtherException
                (''[Errno 36] File name too long: '' @ [CHR 0x27] @ path @ [CHR 0x27]))
         else if files w path = None
         then Inr (path, w\<lparr>files := (files w)(path \<mapsto> [])\<rparr>)
         else named_temporary_file w names sfx)"

text \<open>\<open>tmp.write(content)\<close> on the file just created; a failed write leaves it as it was.\<close>

definition file_write :: "world \<Rightarrow> string \<Rightarrow> string \<Rightarrow> py_exn option \<Rightarrow> py_exn + world" where
  "file_write w path content err =
     (case err of
        Some e \<Rightarrow> Inl e
      | None \<Rightarrow> Inr (w\<lparr>files := (files w)(path \<mapsto> content)\<rparr>))"

text \<open>\<open>os.unlink(path)\<close>: \<open>FileNotFoundError\<close> when there is no such file.\<close>

definition os_unlink :: "world \<Rightarrow> string \<Rightarrow> py_exn + world" where
  "os_unlink w path =
     (if files w path = None then Inl (PyExn OtherException ''No such file or directory'')
      else Inr (w\<lparr>files := (files w)(path := None)\<rparr>))"

subsection \<open>Loading the model\<close>

text \<open>
  The configuration \<open>load_whisper_model\<close> reads from the environment before it
  constructs the model: size, device and compute type, the default of the compute type
  read again when the device is \<open>cuda\<close>.
\<close>

definition read_config :: "(string \<rightharpoonup> string) \<Rightarrow> model_config" where
  "read_config env =
     (let model_size = environ_get env ''WHISPER_MODEL'' ''small'';
          device = environ_get env ''WHISPER_DEVICE'' ''cpu'';
          compute_type = environ_get env ''WHISPER_COMPUTE_TYPE'' ''int8'';
          compute_type =
            (if device = ''cuda'' then environ_get env ''WHISPER_COMPUTE_TYPE'' ''float16''
             else compute_type)
      in \<lparr>cfg_model_size = model_size, cfg_device = device,
          cfg_compute_type = compute_type\<rparr>)"

text \<open>
  \<open>load_whisper_model\<close>. Its first argument is the outcome of
  \<open>from faster_whisper import WhisperModel\<close>: an exception, or the constructor. The
  result is \<open>Inl e\<close> when \<open>e\<close> propagates to the caller, and otherwise the returned
  value, \<open>None\<close> or the handle. Only the success branch assigns the global.
\<close>

definition load_whisper_model ::
  "py_exn + whisper_ctor \<Rightarrow> world \<Rightarrow> (py_exn + whisper_handle option) \<times> world" where
  "load_whisper_model imported w =
     (case imported of
        Inl e \<Rightarrow> if exn_class e = ImportError then (Inr None, w) else (Inl e, w)
      | Inr WhisperModel \<Rightarrow>
          (case WhisperModel (read_config (environ w)) of
             Inr model \<Rightarrow> (Inr (Some model), w\<lparr>whisper_model := Some model\<rparr>)
           | Inl e \<Rightarrow> (Inr None, w)))"

subsection \<open>The health endpoint\<close>

text \<open>
  \<open>status\<close> tests the truth value of the handle and \<open>model_loaded\<close> tests it against
  \<open>None\<close>; a model object defines neither \<open>__bool__\<close> nor \<open>__len__\<close>, so it is true.
\<close>

definition truthy :: "whisper_handle option \<Rightarrow> bool" where
  "truthy m = (case m of None \<Rightarrow> False | Some model \<Rightarrow> True)"

definition health_check :: "world \<Rightarrow> health_response \<times> world" where
  "health_check w =
     (let model_name = environ_get (environ w) ''WHISPER_MODEL'' ''small''
      in (\<lparr>status = (if truthy (whisper_model w) then ''ok'' else ''model_not_loaded''),
           model_loaded = (whisper_model w \<noteq> None),
           model_name = model_name\<rparr>, w))"

subsection \<open>Staging the upload\<close>

text \<open>
  The suffix of the temporary file: \<open>audio.filename or "audio.webm"\<close>, then
  \<open>os.path.splitext(filename)[1] or ".webm"\<close>.
\<close>

definition temp_suffix :: "string option \<Rightarrow> string" where
  "temp_suffix name =
     (let filename = (case name of None \<Rightarrow> ''audio.webm''
                      | Some f \<Rightarrow> if f = [] then ''audio.webm'' else f);
          ext = snd (splitext filename)
      in if ext = [] then ''.webm'' else ext)"

text \<open>
  The \<open>with\<close> block of both endpoints: create the temporary file, read the upload,
  write it. The two endpoints differ only in what they make of an exception raised by
  the read or the write, so the outcome keeps apart the exception of the creation
  (outside the inner \<open>try\<close> of \<open>transcribe\<close>) and that of the read or the write (inside).
\<close>

datatype staging = Staged string | CreateFailed py_exn | ReadFailed py_exn

definition stage_upload :: "world \<Rightarrow> request \<Rightarrow> staging \<times> world" where
  "stage_upload w rq =
     (let ext = temp_suffix (audio_filename rq)
      in case named_temporary_file w (tmp_names rq) ext of
           Inl e \<Rightarrow> (CreateFailed e, w)
         | Inr (tmp_path, w1) \<Rightarrow>
             (case audio_read rq of
                Inl e \<Rightarrow> (ReadFailed e, w1)
              | Inr content \<Rightarrow>
                  (case file_write w1 tmp_path content (tmp_write rq) of
                     Inl e \<Rightarrow> (ReadFailed e, w1)
                   | Inr w2 \<Rightarrow> (Staged tmp_path, w2))))"

text \<open>The \<open>finally\<close> clause of both endpoints: unlink, any exception swallowed.\<close>

definition cleanup :: "world \<Rightarrow> string \<Rightarrow> world" where
  "cleanup w tmp_path = (case os_unlink w tmp_path of Inl e \<Rightarrow> w | Inr w' \<Rightarrow> w')"

subsection \<open>The transcription endpoints\<close>

text \<open>The loop of \<open>transcribe\<close>, with its two accumulators.\<close>

fun collect_segments ::
  "segment list \<Rightarrow> segment_dict list \<Rightarrow> nat list list \<Rightarrow> segment_dict list \<times> nat list list" where
  "collect_segments [] segments full_text = (segments, full_text)"
| "collect_segments (s # segments_list) segments full_text =
     collect_segments segments_list
       (segments @ [\<lparr>d_start = seg_start s, d_end = seg_end s, d_text = strip (seg_text s)\<rparr>])
       (full_text @ [strip (seg_text s)])"

text \<open>The loop of \<open>transcribe_stream\<close>.\<close>

fun collect_results :: "segment list \<Rightarrow> segment_dict list \<Rightarrow> segment_dict list" where
  "collect_results [] results = results"
| "collect_results (s # segments_list) results =
     collect_results segments_list
       (results @ [\<lparr>d_start = seg_start s, d_end = seg_end s, d_text = strip (seg_text s)\<rparr>])"

definition transcribe :: "world \<Rightarrow> request \<Rightarrow> (failure + transcription_result) \<times> world" where
  "transcribe w rq =
     (case whisper_model w of
        None \<Rightarrow>
          (Inl (HTTPException 503 ''Whisper model not loaded. Please check server logs.''), w)
      | Some model \<Rightarrow>
          (case stage_upload w rq of
             (CreateFailed e, w1) \<Rightarrow> (Inl (Unhandled e), w1)
           | (ReadFailed e, w1) \<Rightarrow>
               (Inl (HTTPException 400 (''Failed to read audio: '' @ exn_str e)), w1)
           | (Staged tmp_path, w2) \<Rightarrow>
               (let outcome =
                  (case run_transcribe model (files w2)
                          \<lparr>call_path = tmp_path, call_language = req_language rq,
                           beam_size = 5, best_of = 5, temperature = 0, vad_filter = True\<rparr> of
                     Inl e \<Rightarrow> Inl (HTTPException 500 (''Transcription failed: '' @ exn_str e))
                   | Inr (segments_list, info) \<Rightarrow>
                       (let (segments, full_text) =
                              collect_segments (yields segments_list) [] []
                        in case raises segments_list of
                             Some e \<Rightarrow>
                               Inl (HTTPException 500 (''Transcription failed: '' @ exn_str e))
                           | None \<Rightarrow>
                               Inr \<lparr>res_text = concat full_text,
                                    res_language = info_language info,
                                    res_duration = info_duration info,
                                    res_segments = segments\<rparr>))
                in (outcome, cleanup w2 tmp_path))))"

definition transcribe_stream :: "world \<Rightarrow> request \<Rightarrow> (failure + stream_result) \<times> world" where
  "transcribe_stream w rq =
     (case whisper_model w of
        None \<Rightarrow> (Inl (HTTPException 503 ''Whisper model not loaded''), w)
      | Some model \<Rightarrow>
          (case stage_upload w rq of
             (CreateFailed e, w1) \<Rightarrow> (Inl (Unhandled e), w1)
           | (ReadFailed e, w1) \<Rightarrow> (Inl (Unhandled e), w1)
           | (Staged tmp_path, w2) \<Rightarrow>
               (let outcome =
                  (case run_transcribe model (files w2)
                          \<lparr>call_path = tmp_path, call_language = req_language rq,
                           beam_size = 3, best_of = 3, temperature = 0, vad_filter = True\<rparr> of
                     Inl e \<Rightarrow> Inl (Unhandled e)
                   | Inr (segments_list, info) \<Rightarrow>
                       (let results = collect_results (yields segments_list) []
                        in case raises segments_list of
                             Some e \<Rightarrow> Inl (Unhandled e)
                           | None \<Rightarrow>
                               Inr \<lparr>st_segments = results,
                                    st_language = info_language info,
                                    st_duration = info_duration info\<rparr>))
                in (outcome, cleanup w2 tmp_path))))"

subsection \<open>Properties of segment lists\<close>

text \<open>Start times never decrease along the list, and no segment ends before it starts.\<close>

definition chronological :: "segment_dict list \<Rightarrow> bool" where
  "chronological ds \<longleftrightarrow> sorted (map d_start ds) \<and> list_all (\<lambda>d. d_start d \<le> d_end d) ds"

definition chronological_model :: "segment list \<Rightarrow> bool" where
  "chronological_model ss \<longleftrightarrow>
     sorted (map seg_start ss) \<and> list_all (\<lambda>s. seg_start s \<le> seg_end s) ss"


text \<open>Whether a model call raises \<open>e\<close>, at the call itself or from its generator.\<close>

definition model_raises ::
  "whisper_handle \<Rightarrow> (string \<rightharpoonup> string) \<Rightarrow> transcribe_call \<Rightarrow> py_exn \<Rightarrow> bool" where
  "model_raises model fs call e \<longleftrightarrow>
     (case run_transcribe model fs call of
        Inl e' \<Rightarrow> e' = e
      | Inr (segments_list, info) \<Rightarrow> raises segments_list = Some e)"

subsection \<open>Example scenarios\<close>

text \<open>
  A model that recognises two segments in any file it is given, one that always fails,
  and one whose second segment starts before the first and ends before it starts.
\<close>

definition two_segments :: "segment list" where
  "two_segments =
     [\<lparr>seg_start = 0, seg_end = 3 / 2, seg_text = [32, 20320, 22909]\<rparr>,
      \<lparr>seg_start = 3 / 2, seg_end = 2, seg_text = [19990, 30028, 12288]\<rparr>]"

definition sample_model :: whisper_handle where
  "sample_model =
     Handle (\<lambda>fs call.
       case fs (call_path call) of
         None \<Rightarrow> Inl (PyExn OtherException ''file not found'')
       | Some bytes \<Rightarrow>
           Inr (\<lparr>yields = two_segments, raises = None\<rparr>,
                \<lparr>info_language = ''zh'', info_duration = 2\<rparr>))"

definition failing_model :: whisper_handle where
  "failing_model = Handle (\<lambda>fs call. Inl (PyExn OtherException ''out of memory''))"

definition disordered_model :: whisper_handle where
  "disordered_model =
     Handle (\<lambda>fs call.
       Inr (\<lparr>yields = [\<lparr>seg_start = 4, seg_end = 5, seg_text = [97]\<rparr>,
                       \<lparr>seg_start = 2, seg_end = 1, seg_text = [98]\<rparr>],
             raises = None\<rparr>,
            \<lparr>info_language = ''en'', info_duration = 5\<rparr>))"

definition world_with :: "whisper_handle option \<Rightarrow> world" where
  "world_with m = \<lparr>whisper_model = m, environ = Map.empty, files = Map.empty\<rparr>"

definition clip_request :: request where
  "clip_request =
     \<lparr>audio_filename = Some ''clip.mp3'', audio_read = Inr ''RIFF'',
      req_language = Some ''zh'', tmp_names = [''k3x9q2ab''], tmp_write = None\<rparr>"

definition broken_request :: request where
  "broken_request =
     \<lparr>audio_filename = Some ''clip.mp3'',
      audio_read = Inl (PyExn OtherException ''connection reset''),
      req_language = Some ''zh'', tmp_names = [''k3x9q2ab''], tmp_write = None\<rparr>"


text \<open>
  A constructor that rejects every configuration, naming the device and the compute type
  it was given, and a world whose environment asks for a device the library does not know.
\<close>

definition echo_ctor :: whisper_ctor where
  "echo_ctor cfg =
     Inl (PyExn OtherException
       (''unsupported device '' @ cfg_device cfg @ '' / '' @ cfg_compute_type cfg))"

definition tpu_world :: world where
  "tpu_world =
     \<lparr>whisper_model = None, environ = [''WHISPER_DEVICE'' \<mapsto> ''tpu''], files = Map.empty\<rparr>"

section \<open>Verification\<close>

subsection \<open>The loops and the temporary file\<close>

lemma collect_segments_acc:
  "collect_segments ss segs ft =
     (segs @ map (\<lambda>s. \<lparr>d_start = seg_start s, d_end = seg_end s, d_text = strip (seg_text s)\<rparr>) ss,
      ft @ map (\<lambda>s. strip (seg_text s)) ss)"
  by (induction ss arbitrary: segs ft) simp_all

lemma collect_results_acc:
  "collect_results ss rs =
     rs @ map (\<lambda>s. \<lparr>d_start = seg_start s, d_end = seg_end s, d_text = strip (seg_text s)\<rparr>) ss"
  by (induction ss arbitrary: rs) simp_all

lemma tmp_path_suffix: "suffix sfx (''/tmp/tmp'' @ name @ sfx)"
  by (rule suffixI [where zs = "''/tmp/tmp'' @ name"]) simp

lemma named_temporary_file_created:
  assumes "named_temporary_file w names sfx = Inr (p, w1)"
  shows "files w p = None \<and> w1 = w\<lparr>files := (files w)(p \<mapsto> [])\<rparr> \<and> suffix sfx p"
  using assms
proof (induction names)
  case Nil
  then show ?case by simp
next
  case (Cons name names)
  define path where "path = ''/tmp/tmp'' @ name @ sfx"
  have step: "named_temporary_file w (name # names) sfx =
      (if CHR 0x00 \<in> set path then Inl (PyExn OtherException ''embedded null byte'')
       else if 255 < length (''tmp'' @ name @ sfx)
       then Inl (PyExn OtherException
              (''[Errno 36] File name too long: '' @ [CHR 0x27] @ path @ [CHR 0x27]))
       else if files w path = None then Inr (path, w\<lparr>files := (files w)(path \<mapsto> [])\<rparr>)
       else named_temporary_file w names sfx)"
    unfolding path_def by (simp only: named_temporary_file.simps Let_def)
  show ?case
  proof (cases "files w path = None")
    case True
    with Cons.prems step have "p = path" and "w1 = w\<lparr>files := (files w)(path \<mapsto> [])\<rparr>"
      by (simp_all split: if_splits)
    moreover have "suffix sfx path"
      unfolding path_def by (rule tmp_path_suffix)
    ultimately show ?thesis
      using True by blast
  next
    case False
    with Cons.prems step have "named_temporary_file w names sfx = Inr (p, w1)"
      by (simp split: if_splits)
    then show ?thesis by (rule Cons.IH)
  qed
qed

lemma stage_upload_staged:
  assumes "stage_upload w rq = (Staged p, w2)"
  shows "files w p = None \<and> suffix (temp_suffix (audio_filename rq)) p
         \<and> (\<exists>content. audio_read rq = Inr content \<and> tmp_write rq = None
              \<and> w2 = w\<lparr>files := (files w)(p \<mapsto> content)\<rparr>)"
  using assms
  by (auto simp: stage_upload_def file_write_def Let_def
      split: sum.splits prod.splits option.splits dest!: named_temporary_file_created)

lemma stage_upload_read_failed:
  assumes "stage_upload w rq = (ReadFailed e, w1)"
  shows "\<exists>p. files w p = None \<and> suffix (temp_suffix (audio_filename rq)) p
             \<and> w1 = w\<lparr>files := (files w)(p \<mapsto> [])\<rparr>"
  using assms
  by (auto simp: stage_upload_def file_write_def Let_def
      split: sum.splits prod.splits option.splits dest!: named_temporary_file_created)

lemma cleanup_unlinks: "cleanup w p = w\<lparr>files := (files w)(p := None)\<rparr>"
proof (cases "files w p = None")
  case True
  then have "(files w)(p := None) = files w"
    by (simp add: fun_upd_idem)
  with True show ?thesis
    by (simp add: cleanup_def os_unlink_def)
next
  case False
  then show ?thesis
    by (auto simp: cleanup_def os_unlink_def)
qed

lemma staged_then_cleaned:
  assumes "stage_upload w rq = (Staged p, w2)"
  shows "cleanup w2 p = w"
proof -
  from stage_upload_staged [OF assms] obtain content where
    "files w p = None" and "w2 = w\<lparr>files := (files w)(p \<mapsto> content)\<rparr>"
    by blast
  then show ?thesis by (simp add: cleanup_unlinks fun_upd_idem)
qed

lemma transcribe_restores_files:
  assumes "whisper_model w = Some model" and "stage_upload w rq = (Staged p, w2)"
  shows "snd (transcribe w rq) = w \<and> snd (transcribe_stream w rq) = w"
  using assms staged_then_cleaned [OF assms(2)]
  by (simp add: transcribe_def transcribe_stream_def Let_def)

lemma read_failure_keeps_file:
  assumes "whisper_model w = Some model" and "stage_upload w rq = (ReadFailed e, w1)"
  shows "\<exists>p. files w p = None \<and> files (snd (transcribe w rq)) p = Some []
             \<and> files (snd (transcribe_stream w rq)) p = Some []"
  using assms stage_upload_read_failed [OF assms(2)]
  by (auto simp: transcribe_def transcribe_stream_def)


lemma creation_failure_nothing_staged:
  assumes "whisper_model w = Some model"
    and "named_temporary_file w (tmp_names rq) (temp_suffix (audio_filename rq)) = Inl e"
  shows "transcribe w rq = (Inl (Unhandled e), w)
         \<and> transcribe_stream w rq = (Inl (Unhandled e), w)"
  using assms by (simp add: transcribe_def transcribe_stream_def stage_upload_def)


lemma stream_failures_unshaped:
  assumes "whisper_model w = Some model" and "fst (transcribe_stream w rq) = Inl f"
  shows "\<exists>e. f = Unhandled e"
  using assms
  by (auto simp: transcribe_stream_def Let_def
      split: prod.splits staging.splits sum.splits option.splits)

lemma chronological_collected:
  "chronological (map (\<lambda>s. \<lparr>d_start = seg_start s, d_end = seg_end s, d_text = strip (seg_text s)\<rparr>) ss)
     = chronological_model ss"
  by (simp add: chronological_def chronological_model_def comp_def list_all_iff)

subsection \<open>File names and extensions\<close>

















lemma temp_suffix_clip: "temp_suffix (Some ''clip.mp3'') = ''.mp3''"
  by code_simp

subsection \<open>The example request, evaluated\<close>

lemma clip_staged:
  "stage_upload (world_with m) clip_request =
     (Staged ''/tmp/tmpk3x9q2ab.mp3'',
      \<lparr>whisper_model = m, environ = Map.empty, files = [''/tmp/tmpk3x9q2ab.mp3'' \<mapsto> ''RIFF'']\<rparr>)"
  by (simp add: stage_upload_def world_with_def clip_request_def temp_suffix_clip Let_def
      file_write_def)

lemma world_with_model: "whisper_model (world_with m) = m"
  by (simp add: world_with_def)

lemma clip_transcribed:
  "transcribe (world_with (Some sample_model)) clip_request =
     (Inr \<lparr>res_text = [20320, 22909, 19990, 30028], res_language = ''zh'', res_duration = 2,
          res_segments = [\<lparr>d_start = 0, d_end = 3 / 2, d_text = [20320, 22909]\<rparr>,
                          \<lparr>d_start = 3 / 2, d_end = 2, d_text = [19990, 30028]\<rparr>]\<rparr>,
      world_with (Some sample_model))"
  unfolding transcribe_def world_with_model clip_staged
  by (simp add: sample_model_def two_segments_def Let_def strip_def isspace_def
      cleanup_unlinks world_with_def)

lemma clip_streamed:
  "transcribe_stream (world_with (Some sample_model)) clip_request =
     (Inr \<lparr>st_segments = [\<lparr>d_start = 0, d_end = 3 / 2, d_text = [20320, 22909]\<rparr>,
                         \<lparr>d_start = 3 / 2, d_end = 2, d_text = [19990, 30028]\<rparr>],
          st_language = ''zh'', st_duration = 2\<rparr>,
      world_with (Some sample_model))"
  unfolding transcribe_stream_def world_with_model clip_staged
  by (simp add: sample_model_def two_segments_def Let_def strip_def isspace_def
      cleanup_unlinks world_with_def)

lemma broken_created:
  "named_temporary_file (world_with m) (tmp_names broken_request)
       (temp_suffix (audio_filename broken_request)) =
     Inr (''/tmp/tmpk3x9q2ab.mp3'',
          \<lparr>whisper_model = m, environ = Map.empty, files = [''/tmp/tmpk3x9q2ab.mp3'' \<mapsto> []]\<rparr>)"
  by (simp add: broken_request_def temp_suffix_clip world_with_def Let_def)





subsection \<open>The temporary file on a failed read\<close>

text \<open>
  C1. The claim: on every path of \<open>/transcribe\<close> and \<open>/transcribe-stream\<close>, a failed read
  of the upload included, the temporary file is deleted before the response. Evaluated
  on a request whose read fails: the file was created before the read, the \<open>finally\<close>
  that unlinks it belongs to the later \<open>try\<close>, and the file is still there after the
  request, empty, at both endpoints. (When the upload is staged, the file is removed:
  \<open>transcribe_restores_files\<close>.)
\<close>

theorem read_failure_leaks_temp_file:
  "fst (transcribe (world_with (Some sample_model)) broken_request) =
     Inl (HTTPException 400 ''Failed to read audio: connection reset'')
   \<and> files (snd (transcribe (world_with (Some sample_model)) broken_request))
       ''/tmp/tmpk3x9q2ab.mp3'' = Some []
   \<and> fst (transcribe_stream (world_with (Some sample_model)) broken_request) =
       Inl (Unhandled (PyExn OtherException ''connection reset''))
   \<and> files (snd (transcribe_stream (world_with (Some sample_model)) broken_request))
       ''/tmp/tmpk3x9q2ab.mp3'' = Some []"
  by (simp add: transcribe_def transcribe_stream_def stage_upload_def world_with_def
      broken_request_def temp_suffix_clip Let_def)

subsection \<open>The text of a transcription\<close>

text \<open>
  C2. When \<open>/transcribe\<close> succeeds, the model was called on the staged file and its
  generator ended without raising; the texts of the segments in the response are the
  stripped texts of the model's segments, in the model's order, and the \<open>text\<close> field is
  their concatenation with nothing between them.
\<close>

theorem transcribe_text_is_concatenation:
  assumes "transcribe w rq = (Inr r, w')"
  shows "\<exists>model tmp_path w2 segments_list info.
           whisper_model w = Some model
           \<and> stage_upload w rq = (Staged tmp_path, w2)
           \<and> run_transcribe model (files w2)
                 \<lparr>call_path = tmp_path, call_language = req_language rq,
                  beam_size = 5, best_of = 5, temperature = 0, vad_filter = True\<rparr>
               = Inr (segments_list, info)
           \<and> raises segments_list = None
           \<and> map d_text (res_segments r) = map (\<lambda>s. strip (seg_text s)) (yields segments_list)
           \<and> res_text r = concat (map (\<lambda>s. strip (seg_text s)) (yields segments_list))
           \<and> res_text r = concat (map d_text (res_segments r))"
proof -
  from assms obtain model where m: "whisper_model w = Some model"
    by (auto simp: transcribe_def split: option.splits)
  from assms m obtain tmp_path w2 where st: "stage_upload w rq = (Staged tmp_path, w2)"
    by (auto simp: transcribe_def split: prod.splits staging.splits)
  let ?call = "\<lparr>call_path = tmp_path, call_language = req_language rq,
                  beam_size = 5, best_of = 5, temperature = 0, vad_filter = True\<rparr>"
  from assms m st obtain segments_list info where
    run: "run_transcribe model (files w2) ?call = Inr (segments_list, info)"
    by (auto simp: transcribe_def Let_def split: sum.splits)
  from assms m st run have ok: "raises segments_list = None"
    by (auto simp: transcribe_def Let_def split: prod.splits option.splits)
  from assms m st run ok have
    r: "r = \<lparr>res_text = concat (snd (collect_segments (yields segments_list) [] [])),
             res_language = info_language info, res_duration = info_duration info,
             res_segments = fst (collect_segments (yields segments_list) [] [])\<rparr>"
    by (auto simp: transcribe_def Let_def split: prod.splits)
  have "map d_text (res_segments r) = map (\<lambda>s. strip (seg_text s)) (yields segments_list)"
    and "res_text r = concat (map (\<lambda>s. strip (seg_text s)) (yields segments_list))"
    by (simp_all add: r collect_segments_acc comp_def)
  with m st run ok show ?thesis by auto
qed

theorem transcribe_text_is_concatenation_witness:
  "transcribe (world_with (Some sample_model)) clip_request =
     (Inr \<lparr>res_text = [20320, 22909, 19990, 30028], res_language = ''zh'', res_duration = 2,
          res_segments = [\<lparr>d_start = 0, d_end = 3 / 2, d_text = [20320, 22909]\<rparr>,
                          \<lparr>d_start = 3 / 2, d_end = 2, d_text = [19990, 30028]\<rparr>]\<rparr>,
      world_with (Some sample_model))
   \<and> (\<exists>segments_list :: segments_gen.
         [[20320, 22909], [19990, 30028]] = map (\<lambda>s. strip (seg_text s)) (yields segments_list)
         \<and> [20320, 22909, 19990, 30028] =
             concat (map (\<lambda>s. strip (seg_text s)) (yields segments_list)))"
proof -
  let ?r = "\<lparr>res_text = [20320, 22909, 19990, 30028], res_language = ''zh'', res_duration = 2,
          res_segments = [\<lparr>d_start = 0, d_end = 3 / 2, d_text = [20320, 22909]\<rparr>,
                          \<lparr>d_start = 3 / 2, d_end = 2, d_text = [19990, 30028]\<rparr>]\<rparr>"
  have "\<exists>segments_list :: segments_gen.
      map d_text (res_segments ?r) = map (\<lambda>s. strip (seg_text s)) (yields segments_list)
      \<and> res_text ?r = concat (map (\<lambda>s. strip (seg_text s)) (yields segments_list))"
    using transcribe_text_is_concatenation [OF clip_transcribed] by blast
  then show ?thesis
    using clip_transcribed by simp
qed

subsection \<open>An absent model\<close>

text \<open>
  C3. With the model handle absent, \<open>/transcribe\<close> and \<open>/transcribe-stream\<close> raise the
  HTTP exception 503, and the world they return is the world they were given: no file
  was created or written.
\<close>

theorem absent_model_unavailable:
  assumes "whisper_model w = None"
  shows "transcribe w rq =
           (Inl (HTTPException 503 ''Whisper model not loaded. Please check server logs.''), w)
         \<and> transcribe_stream w rq = (Inl (HTTPException 503 ''Whisper model not loaded''), w)"
  using assms by (simp add: transcribe_def transcribe_stream_def)

theorem absent_model_unavailable_witness:
  "whisper_model (world_with None) = None
   \<and> transcribe (world_with None) clip_request =
       (Inl (HTTPException 503 ''Whisper model not loaded. Please check server logs.''),
        world_with None)
   \<and> transcribe_stream (world_with None) clip_request =
       (Inl (HTTPException 503 ''Whisper model not loaded''), world_with None)"
  using absent_model_unavailable [of "world_with None" clip_request]
  by (simp add: world_with_def)

subsection \<open>The shapes of failures\<close>

text \<open>
  C4. With the handle present: when the temporary file was created and reading the upload
  raises \<open>e\<close>, \<open>/transcribe\<close> answers with the HTTP exception 400 whose detail ends with
  the text of \<open>e\<close>, and when the upload was staged and the model call raises \<open>e\<close> (at
  the call or from its generator), with the HTTP exception 500 whose detail ends with the
  text of \<open>e\<close>. \<open>/transcribe-stream\<close> shapes neither: in both cases \<open>e\<close> itself
  propagates, and no failure of \<open>/transcribe-stream\<close> is an HTTP exception.
\<close>

theorem transcribe_error_shapes:
  assumes "whisper_model w = Some model"
  shows "(named_temporary_file w (tmp_names rq) (temp_suffix (audio_filename rq)) = Inr (p, wc)
            \<and> audio_read rq = Inl e
          \<longrightarrow> fst (transcribe w rq) =
                Inl (HTTPException 400 (''Failed to read audio: '' @ exn_str e))
              \<and> fst (transcribe_stream w rq) = Inl (Unhandled e))
         \<and> (stage_upload w rq = (Staged p, ws)
              \<and> model_raises model (files ws)
                    \<lparr>call_path = p, call_language = req_language rq,
                     beam_size = 5, best_of = 5, temperature = 0, vad_filter = True\<rparr> e
            \<longrightarrow> fst (transcribe w rq) =
                  Inl (HTTPException 500 (''Transcription failed: '' @ exn_str e)))
         \<and> (stage_upload w rq = (Staged p, ws)
              \<and> model_raises model (files ws)
                    \<lparr>call_path = p, call_language = req_language rq,
                     beam_size = 3, best_of = 3, temperature = 0, vad_filter = True\<rparr> e
            \<longrightarrow> fst (transcribe_stream w rq) = Inl (Unhandled e))
         \<and> (fst (transcribe_stream w rq) = Inl f \<longrightarrow> (\<exists>e'. f = Unhandled e'))"
proof (intro conjI impI)
  assume "named_temporary_file w (tmp_names rq) (temp_suffix (audio_filename rq)) = Inr (p, wc)
            \<and> audio_read rq = Inl e"
  then have st: "stage_upload w rq = (ReadFailed e, wc)"
    by (simp add: stage_upload_def)
  with assms show "fst (transcribe w rq) =
      Inl (HTTPException 400 (''Failed to read audio: '' @ exn_str e))"
    by (simp add: transcribe_def)
  from assms st show "fst (transcribe_stream w rq) = Inl (Unhandled e)"
    by (simp add: transcribe_stream_def)
next
  assume "stage_upload w rq = (Staged p, ws)
              \<and> model_raises model (files ws)
                    \<lparr>call_path = p, call_language = req_language rq,
                     beam_size = 5, best_of = 5, temperature = 0, vad_filter = True\<rparr> e"
  with assms show "fst (transcribe w rq) =
                  Inl (HTTPException 500 (''Transcription failed: '' @ exn_str e))"
    by (auto simp: transcribe_def model_raises_def Let_def split: sum.splits prod.splits)
next
  assume "stage_upload w rq = (Staged p, ws)
              \<and> model_raises model (files ws)
                    \<lparr>call_path = p, call_language = req_language rq,
                     beam_size = 3, best_of = 3, temperature = 0, vad_filter = True\<rparr> e"
  with assms show "fst (transcribe_stream w rq) = Inl (Unhandled e)"
    by (auto simp: transcribe_stream_def model_raises_def Let_def split: sum.splits prod.splits)
next
  assume "fst (transcribe_stream w rq) = Inl f"
  with assms show "\<exists>e'. f = Unhandled e'"
    by (rule stream_failures_unshaped)
qed

theorem transcribe_error_shapes_witness:
  "whisper_model (world_with (Some failing_model)) = Some failing_model
   \<and> audio_read broken_request = Inl (PyExn OtherException ''connection reset'')
   \<and> fst (transcribe (world_with (Some failing_model)) broken_request) =
       Inl (HTTPException 400 ''Failed to read audio: connection reset'')
   \<and> fst (transcribe_stream (world_with (Some failing_model)) broken_request) =
       Inl (Unhandled (PyExn OtherException ''connection reset''))
   \<and> fst (stage_upload (world_with (Some failing_model)) clip_request) =
       Staged ''/tmp/tmpk3x9q2ab.mp3''
   \<and> fst (transcribe (world_with (Some failing_model)) clip_request) =
       Inl (HTTPException 500 ''Transcription failed: out of memory'')
   \<and> fst (transcribe_stream (world_with (Some failing_model)) clip_request) =
       Inl (Unhandled (PyExn OtherException ''out of memory''))"
proof -
  let ?w = "world_with (Some failing_model)"
  let ?p = "''/tmp/tmpk3x9q2ab.mp3''"
  have m: "whisper_model ?w = Some failing_model"
    by (rule world_with_model)
  have rd: "audio_read broken_request = Inl (PyExn OtherException ''connection reset'')"
    by (simp add: broken_request_def)
  have fails: "model_raises failing_model fs call (PyExn OtherException ''out of memory'')"
    for fs call
    by (simp add: model_raises_def failing_model_def)
  note read_case = transcribe_error_shapes [OF m, where rq = broken_request and p = ?p
      and wc = "\<lparr>whisper_model = Some failing_model, environ = Map.empty,
                 files = [?p \<mapsto> []]\<rparr>"
      and e = "PyExn OtherException ''connection reset''"]
  note model_case = transcribe_error_shapes [OF m, where rq = clip_request and p = ?p
      and ws = "\<lparr>whisper_model = Some failing_model, environ = Map.empty,
                 files = [?p \<mapsto> ''RIFF'']\<rparr>"
      and e = "PyExn OtherException ''out of memory''"]
  show ?thesis
    using m rd fails read_case model_case
    by (simp add: broken_created clip_staged)
qed

subsection \<open>The times of segments\<close>

text \<open>
  C5, as stated: in every list of segments returned, the start times never decrease and
  no segment ends before it starts. The endpoints copy the times the model gives and
  check nothing: for a model whose second segment starts before the first, and ends
  before it starts, \<open>/transcribe-stream\<close> returns exactly those segments.
\<close>

theorem disordered_segments_returned:
  "fst (transcribe_stream (world_with (Some disordered_model)) clip_request) =
     Inr \<lparr>st_segments = [\<lparr>d_start = 4, d_end = 5, d_text = [97]\<rparr>,
                         \<lparr>d_start = 2, d_end = 1, d_text = [98]\<rparr>],
          st_language = ''en'', st_duration = 5\<rparr>
   \<and> \<not> chronological [\<lparr>d_start = 4, d_end = 5, d_text = [97]\<rparr>,
                        \<lparr>d_start = 2, d_end = 1, d_text = [98]\<rparr>]"
proof -
  have "fst (transcribe_stream (world_with (Some disordered_model)) clip_request) =
     Inr \<lparr>st_segments = [\<lparr>d_start = 4, d_end = 5, d_text = [97]\<rparr>,
                         \<lparr>d_start = 2, d_end = 1, d_text = [98]\<rparr>],
          st_language = ''en'', st_duration = 5\<rparr>"
    unfolding transcribe_stream_def world_with_model clip_staged
    by (simp add: disordered_model_def Let_def strip_def isspace_def)
  moreover have "\<not> chronological [\<lparr>d_start = 4, d_end = 5, d_text = [97]\<rparr>,
                        \<lparr>d_start = 2, d_end = 1, d_text = [98]\<rparr>]"
    by (simp add: chronological_def)
  ultimately show ?thesis by (rule conjI)
qed

text \<open>
  C5, amended. The segments returned by \<open>/transcribe\<close> and \<open>/transcribe-stream\<close> carry
  the start and end times of the segments the model yielded, in the model's order; so
  the list returned is chronological exactly when the model's list is.
\<close>

theorem segments_keep_model_times:
  "(transcribe w rq = (Inr r, w') \<longrightarrow>
      (\<exists>model tmp_path ws segments_list info.
         whisper_model w = Some model
         \<and> stage_upload w rq = (Staged tmp_path, ws)
         \<and> run_transcribe model (files ws)
               \<lparr>call_path = tmp_path, call_language = req_language rq,
                beam_size = 5, best_of = 5, temperature = 0, vad_filter = True\<rparr>
             = Inr (segments_list, info)
         \<and> map d_start (res_segments r) = map seg_start (yields segments_list)
         \<and> map d_end (res_segments r) = map seg_end (yields segments_list)
         \<and> chronological (res_segments r) = chronological_model (yields segments_list)))
   \<and> (transcribe_stream w rq = (Inr sr, w') \<longrightarrow>
      (\<exists>model tmp_path ws segments_list info.
         whisper_model w = Some model
         \<and> stage_upload w rq = (Staged tmp_path, ws)
         \<and> run_transcribe model (files ws)
               \<lparr>call_path = tmp_path, call_language = req_language rq,
                beam_size = 3, best_of = 3, temperature = 0, vad_filter = True\<rparr>
             = Inr (segments_list, info)
         \<and> map d_start (st_segments sr) = map seg_start (yields segments_list)
         \<and> map d_end (st_segments sr) = map seg_end (yields segments_list)
         \<and> chronological (st_segments sr) = chronological_model (yields segments_list)))"
proof (intro conjI impI)
  assume a: "transcribe w rq = (Inr r, w')"
  from a obtain model where m: "whisper_model w = Some model"
    by (auto simp: transcribe_def split: option.splits)
  from a m obtain tmp_path ws where st: "stage_upload w rq = (Staged tmp_path, ws)"
    by (auto simp: transcribe_def split: prod.splits staging.splits)
  let ?call = "\<lparr>call_path = tmp_path, call_language = req_language rq,
                  beam_size = 5, best_of = 5, temperature = 0, vad_filter = True\<rparr>"
  from a m st obtain segments_list info where
    run: "run_transcribe model (files ws) ?call = Inr (segments_list, info)"
    by (auto simp: transcribe_def Let_def split: sum.splits)
  from a m st run have
    r: "res_segments r = fst (collect_segments (yields segments_list) [] [])"
    by (auto simp: transcribe_def Let_def split: prod.splits option.splits)
  have "map d_start (res_segments r) = map seg_start (yields segments_list)"
    and "map d_end (res_segments r) = map seg_end (yields segments_list)"
    and "chronological (res_segments r) = chronological_model (yields segments_list)"
    by (simp_all add: r collect_segments_acc comp_def chronological_collected)
  with m st run show "\<exists>model tmp_path ws segments_list info.
         whisper_model w = Some model
         \<and> stage_upload w rq = (Staged tmp_path, ws)
         \<and> run_transcribe model (files ws)
               \<lparr>call_path = tmp_path, call_language = req_language rq,
                beam_size = 5, best_of = 5, temperature = 0, vad_filter = True\<rparr>
             = Inr (segments_list, info)
         \<and> map d_start (res_segments r) = map seg_start (yields segments_list)
         \<and> map d_end (res_segments r) = map seg_end (yields segments_list)
         \<and> chronological (res_segments r) = chronological_model (yields segments_list)"
    by blast
next
  assume a: "transcribe_stream w rq = (Inr sr, w')"
  from a obtain model where m: "whisper_model w = Some model"
    by (auto simp: transcribe_stream_def split: option.splits)
  from a m obtain tmp_path ws where st: "stage_upload w rq = (Staged tmp_path, ws)"
    by (auto simp: transcribe_stream_def split: prod.splits staging.splits)
  let ?call = "\<lparr>call_path = tmp_path, call_language = req_language rq,
                  beam_size = 3, best_of = 3, temperature = 0, vad_filter = True\<rparr>"
  from a m st obtain segments_list info where
    run: "run_transcribe model (files ws) ?call = Inr (segments_list, info)"
    by (auto simp: transcribe_stream_def Let_def split: sum.splits)
  from a m st run have
    r: "st_segments sr = collect_results (yields segments_list) []"
    by (auto simp: transcribe_stream_def Let_def split: prod.splits option.splits)
  have "map d_start (st_segments sr) = map seg_start (yields segments_list)"
    and "map d_end (st_segments sr) = map seg_end (yields segments_list)"
    and "chronological (st_segments sr) = chronological_model (yields segments_list)"
    by (simp_all add: r collect_results_acc comp_def chronological_collected)
  with m st run show "\<exists>model tmp_path ws segments_list info.
         whisper_model w = Some model
         \<and> stage_upload w rq = (Staged tmp_path, ws)
         \<and> run_transcribe model (files ws)
               \<lparr>call_path = tmp_path, call_language = req_language rq,
                beam_size = 3, best_of = 3, temperature = 0, vad_filter = True\<rparr>
             = Inr (segments_list, info)
         \<and> map d_start (st_segments sr) = map seg_start (yields segments_list)
         \<and> map d_end (st_segments sr) = map seg_end (yields segments_list)
         \<and> chronological (st_segments sr) = chronological_model (yields segments_list)"
    by blast
qed

theorem segments_keep_model_times_witness:
  "transcribe (world_with (Some sample_model)) clip_request =
     (Inr \<lparr>res_text = [20320, 22909, 19990, 30028], res_language = ''zh'', res_duration = 2,
          res_segments = [\<lparr>d_start = 0, d_end = 3 / 2, d_text = [20320, 22909]\<rparr>,
                          \<lparr>d_start = 3 / 2, d_end = 2, d_text = [19990, 30028]\<rparr>]\<rparr>,
      world_with (Some sample_model))
   \<and> transcribe_stream (world_with (Some sample_model)) clip_request =
     (Inr \<lparr>st_segments = [\<lparr>d_start = 0, d_end = 3 / 2, d_text = [20320, 22909]\<rparr>,
                         \<lparr>d_start = 3 / 2, d_end = 2, d_text = [19990, 30028]\<rparr>],
          st_language = ''zh'', st_duration = 2\<rparr>,
      world_with (Some sample_model))
   \<and> (\<exists>segments_list :: segments_gen.
         [0, 3 / 2] = map seg_start (yields segments_list)
         \<and> [3 / 2, 2] = map seg_end (yields segments_list))"
proof -
  let ?r = "\<lparr>res_text = [20320, 22909, 19990, 30028], res_language = ''zh'', res_duration = 2,
          res_segments = [\<lparr>d_start = 0, d_end = 3 / 2, d_text = [20320, 22909]\<rparr>,
                          \<lparr>d_start = 3 / 2, d_end = 2, d_text = [19990, 30028]\<rparr>]\<rparr>"
  let ?sr = "\<lparr>st_segments = [\<lparr>d_start = 0, d_end = 3 / 2, d_text = [20320, 22909]\<rparr>,
                         \<lparr>d_start = 3 / 2, d_end = 2, d_text = [19990, 30028]\<rparr>],
          st_language = ''zh'', st_duration = 2\<rparr>"
  note both = segments_keep_model_times [where w = "world_with (Some sample_model)"
      and rq = clip_request and r = ?r and sr = ?sr and w' = "world_with (Some sample_model)"]
  have "\<exists>segments_list :: segments_gen.
      map d_start (res_segments ?r) = map seg_start (yields segments_list)
      \<and> map d_end (res_segments ?r) = map seg_end (yields segments_list)"
    using both clip_transcribed by blast
  moreover have "\<exists>segments_list :: segments_gen.
      map d_start (st_segments ?sr) = map seg_start (yields segments_list)
      \<and> map d_end (st_segments ?sr) = map seg_end (yields segments_list)"
    using both clip_streamed by blast
  ultimately show ?thesis
    using clip_transcribed clip_streamed by simp
qed

subsection \<open>The suffix of the temporary file\<close>



subsection \<open>The health endpoint\<close>

text \<open>
  C7. \<open>GET /health\<close> always returns a body and leaves the world as it was. The status
  is "ok" when the handle is present and "model_not_loaded" otherwise, \<open>model_loaded\<close>
  says whether the handle is present, and \<open>model_name\<close> is the value of WHISPER_MODEL, or
  "small" when it is unset; after \<open>load_whisper_model\<close>, whatever its outcome, the name
  reported is still the one configured.
\<close>

theorem health_check_reports:
  "health_check w =
     (\<lparr>status = (if whisper_model w \<noteq> None then ''ok'' else ''model_not_loaded''),
       model_loaded = (whisper_model w \<noteq> None),
       model_name = (case environ w ''WHISPER_MODEL'' of None \<Rightarrow> ''small'' | Some v \<Rightarrow> v)\<rparr>, w)
   \<and> model_name (fst (health_check (snd (load_whisper_model imported w)))) =
       (case environ w ''WHISPER_MODEL'' of None \<Rightarrow> ''small'' | Some v \<Rightarrow> v)"
proof -
  have env: "environ (snd (load_whisper_model imported w)) = environ w"
    by (simp add: load_whisper_model_def split: sum.splits)
  have "truthy (whisper_model w) = (whisper_model w \<noteq> None)"
    by (simp add: truthy_def split: option.splits)
  then show ?thesis
    using env by (simp add: health_check_def environ_get_def)
qed

subsection \<open>The configuration of the model\<close>

text \<open>
  C9. With WHISPER_COMPUTE_TYPE unset, the compute type is "int8" when the device is
  "cpu" and "float16" when it is "cuda"; when it is set, its value is the compute type,
  whatever the device. The configuration is what the constructor is called with.
\<close>

theorem compute_type_defaults:
  "(env ''WHISPER_COMPUTE_TYPE'' = None \<and> cfg_device (read_config env) = ''cpu''
      \<longrightarrow> cfg_compute_type (read_config env) = ''int8'')
   \<and> (env ''WHISPER_COMPUTE_TYPE'' = None \<and> cfg_device (read_config env) = ''cuda''
      \<longrightarrow> cfg_compute_type (read_config env) = ''float16'')
   \<and> (env ''WHISPER_COMPUTE_TYPE'' = Some v \<longrightarrow> cfg_compute_type (read_config env) = v)
   \<and> cfg_device (read_config env) =
       (case env ''WHISPER_DEVICE'' of None \<Rightarrow> ''cpu'' | Some d \<Rightarrow> d)
   \<and> load_whisper_model (Inr ctor) w =
       (case ctor (read_config (environ w)) of
          Inr model \<Rightarrow> (Inr (Some model), w\<lparr>whisper_model := Some model\<rparr>)
        | Inl e \<Rightarrow> (Inr None, w))"
  by (simp add: read_config_def environ_get_def load_whisper_model_def Let_def)

theorem compute_type_defaults_witness:
  "cfg_device (read_config Map.empty) = ''cpu''
   \<and> cfg_compute_type (read_config Map.empty) = ''int8''
   \<and> cfg_device (read_config [''WHISPER_DEVICE'' \<mapsto> ''cuda'']) = ''cuda''
   \<and> cfg_compute_type (read_config [''WHISPER_DEVICE'' \<mapsto> ''cuda'']) = ''float16''
   \<and> cfg_compute_type (read_config [''WHISPER_COMPUTE_TYPE'' \<mapsto> ''int8_float16'']) = ''int8_float16''
   \<and> cfg_compute_type
        (read_config [''WHISPER_DEVICE'' \<mapsto> ''cuda'', ''WHISPER_COMPUTE_TYPE'' \<mapsto> ''int8_float16''])
       = ''int8_float16''"
proof -
  have dev: "cfg_device (read_config Map.empty) = ''cpu''"
      "cfg_device (read_config [''WHISPER_DEVICE'' \<mapsto> ''cuda'']) = ''cuda''"
    by (simp_all add: read_config_def environ_get_def)
  show ?thesis
    using dev
      compute_type_defaults [of Map.empty]
      compute_type_defaults [of "[''WHISPER_DEVICE'' \<mapsto> ''cuda'']"]
      compute_type_defaults [of "[''WHISPER_COMPUTE_TYPE'' \<mapsto> ''int8_float16'']" "''int8_float16''"]
      compute_type_defaults
        [of "[''WHISPER_DEVICE'' \<mapsto> ''cuda'', ''WHISPER_COMPUTE_TYPE'' \<mapsto> ''int8_float16'']"
          "''int8_float16''"]
    by simp
qed

text \<open>
  C10. The device is not validated. Whatever string other than "cuda" the device is (the
  value of WHISPER_DEVICE, "cpu" when unset), the compute type falls back to "int8", the
  default of the cpu, when WHISPER_COMPUTE_TYPE is unset, and the constructor is called
  with the device string as it is.
\<close>

theorem device_not_validated:
  assumes "environ_get env ''WHISPER_DEVICE'' ''cpu'' = device" and "device \<noteq> ''cuda''"
  shows "read_config env =
           \<lparr>cfg_model_size = environ_get env ''WHISPER_MODEL'' ''small'',
            cfg_device = device,
            cfg_compute_type = environ_get env ''WHISPER_COMPUTE_TYPE'' ''int8''\<rparr>
         \<and> (env ''WHISPER_COMPUTE_TYPE'' = None \<longrightarrow> cfg_compute_type (read_config env) = ''int8'')
         \<and> (environ w = env \<longrightarrow>
              load_whisper_model (Inr ctor) w =
                (case ctor \<lparr>cfg_model_size = environ_get env ''WHISPER_MODEL'' ''small'',
                            cfg_device = device,
                            cfg_compute_type = environ_get env ''WHISPER_COMPUTE_TYPE'' ''int8''\<rparr> of
                   Inr model \<Rightarrow> (Inr (Some model), w\<lparr>whisper_model := Some model\<rparr>)
                 | Inl e \<Rightarrow> (Inr None, w)))"
  using assms
  by (auto simp: read_config_def environ_get_def load_whisper_model_def Let_def)

theorem device_not_validated_witness:
  "environ_get (environ tpu_world) ''WHISPER_DEVICE'' ''cpu'' = ''tpu'' \<and> ''tpu'' \<noteq> ''cuda''
   \<and> environ tpu_world ''WHISPER_COMPUTE_TYPE'' = None
   \<and> read_config (environ tpu_world) =
       \<lparr>cfg_model_size = ''small'', cfg_device = ''tpu'', cfg_compute_type = ''int8''\<rparr>
   \<and> load_whisper_model (Inr echo_ctor) tpu_world = (Inr None, tpu_world)"
proof -
  have h: "environ_get (environ tpu_world) ''WHISPER_DEVICE'' ''cpu'' = ''tpu''" "''tpu'' \<noteq> ''cuda''"
    by (simp_all add: environ_get_def tpu_world_def)
  show ?thesis
    using h device_not_validated [OF h, where w = tpu_world and ctor = echo_ctor]
    by (simp add: environ_get_def tpu_world_def echo_ctor_def)
qed

subsection \<open>Failures of the load\<close>

text \<open>
  C8, as stated: \<open>load_whisper_model\<close> never raises to its caller. The import is guarded
  by \<open>except ImportError\<close> only: when the code of an imported module raises an exception
  of another class (a \<open>ValueError\<close> of a compiled module built against another version
  of a library, for one), the exception propagates.
\<close>

theorem import_failure_propagates:
  "fst (load_whisper_model
          (Inl (PyExn OtherException
                 ''numpy.dtype size changed, may indicate binary incompatibility''))
          (world_with None))
     = Inl (PyExn OtherException
              ''numpy.dtype size changed, may indicate binary incompatibility'')"
  by (simp add: load_whisper_model_def)

text \<open>
  C8, amended. When the import raises \<open>ImportError\<close>, or when the construction of the
  model raises, \<open>load_whisper_model\<close> returns \<open>None\<close> and does not assign the global
  handle, which stays absent when it was absent. When the import raises an exception of
  another class, that exception propagates to the caller, the handle not assigned either;
  nothing else is ever raised to the caller.
\<close>

theorem load_failure_returns_none:
  "(exn_class e = ImportError \<longrightarrow>
      fst (load_whisper_model (Inl e) w) = Inr None
      \<and> whisper_model (snd (load_whisper_model (Inl e) w)) = whisper_model w)
   \<and> (ctor (read_config (environ w)) = Inl e \<longrightarrow>
      fst (load_whisper_model (Inr ctor) w) = Inr None
      \<and> whisper_model (snd (load_whisper_model (Inr ctor) w)) = whisper_model w)
   \<and> (exn_class e \<noteq> ImportError \<longrightarrow>
      fst (load_whisper_model (Inl e) w) = Inl e
      \<and> whisper_model (snd (load_whisper_model (Inl e) w)) = whisper_model w)
   \<and> (fst (load_whisper_model imported w) = Inl e \<longrightarrow>
      imported = Inl e \<and> exn_class e \<noteq> ImportError)"
proof (intro conjI impI)
  assume "exn_class e = ImportError"
  then show "fst (load_whisper_model (Inl e) w) = Inr None"
    and "whisper_model (snd (load_whisper_model (Inl e) w)) = whisper_model w"
    by (simp_all add: load_whisper_model_def)
next
  assume "ctor (read_config (environ w)) = Inl e"
  then show "fst (load_whisper_model (Inr ctor) w) = Inr None"
    and "whisper_model (snd (load_whisper_model (Inr ctor) w)) = whisper_model w"
    by (simp_all add: load_whisper_model_def)
next
  assume "exn_class e \<noteq> ImportError"
  then show "fst (load_whisper_model (Inl e) w) = Inl e"
    and "whisper_model (snd (load_whisper_model (Inl e) w)) = whisper_model w"
    by (simp_all add: load_whisper_model_def)
next
  assume raised: "fst (load_whisper_model imported w) = Inl e"
  then show "imported = Inl e"
    by (auto simp: load_whisper_model_def split: sum.splits if_splits)
  from raised show "exn_class e \<noteq> ImportError"
    by (auto simp: load_whisper_model_def split: sum.splits if_splits)
qed

theorem load_failure_returns_none_witness:
  "whisper_model (world_with None) = None
   \<and> exn_class (PyExn ImportError ''No module named faster_whisper'') = ImportError
   \<and> fst (load_whisper_model (Inl (PyExn ImportError ''No module named faster_whisper''))
          (world_with None)) = Inr None
   \<and> whisper_model (snd (load_whisper_model
          (Inl (PyExn ImportError ''No module named faster_whisper'')) (world_with None))) = None
   \<and> echo_ctor (read_config (environ tpu_world)) =
       Inl (PyExn OtherException ''unsupported device tpu / int8'')
   \<and> fst (load_whisper_model (Inr echo_ctor) tpu_world) = Inr None
   \<and> whisper_model (snd (load_whisper_model (Inr echo_ctor) tpu_world)) = None
   \<and> exn_class (PyExn OtherException ''module compiled against another version'')
       \<noteq> ImportError
   \<and> fst (load_whisper_model
          (Inl (PyExn OtherException ''module compiled against another version''))
          (world_with None))
       = Inl (PyExn OtherException ''module compiled against another version'')
   \<and> whisper_model (snd (load_whisper_model
          (Inl (PyExn OtherException ''module compiled against another version''))
          (world_with None))) = None"
proof -
  have startup: "whisper_model (world_with None) = None" "whisper_model tpu_world = None"
    by (simp_all add: world_with_def tpu_world_def)
  have c: "echo_ctor (read_config (environ tpu_world)) =
      Inl (PyExn OtherException ''unsupported device tpu / int8'')"
    by (simp add: echo_ctor_def read_config_def environ_get_def tpu_world_def)
  show ?thesis
    using startup c
      load_failure_returns_none
        [where e = "PyExn ImportError ''No module named faster_whisper''"
           and w = "world_with None"]
      load_failure_returns_none
        [where ctor = echo_ctor and w = tpu_world
           and e = "PyExn OtherException ''unsupported device tpu / int8''"]
      load_failure_returns_none
        [where e = "PyExn OtherException ''module compiled against another version''"
           and w = "world_with None"
           and imported = "Inl (PyExn OtherException ''module compiled against another version'')"]
    by simp
qed

end
